theory Spec2Isabelle
  imports
    Complex_Main
    "HOL-Library.Word"
    "HOL-Library.Multiset"
    "HOL-Library.Signed_Division"
    "HOL-Library.Sublist"
begin

section \<open>Data model of \<^verbatim>\<open>main.go\<close>\<close>

text \<open>
  The three structs of the program. \<^verbatim>\<open>SlideInterval\<close> is a Go \<^verbatim>\<open>uint\<close>, taken here at
  its 64-bit width: its arithmetic wraps around modulo \<open>2 ^ 64\<close>.
\<close>

record Entry =
  ID :: string
  Title :: string
  ImagePath :: string
  Description :: string

record Manifest =
  Entries :: "Entry list"

record Config =
  ContentDirectory :: string
  ManifestPath :: string
  SlideInterval :: "64 word"
  FillColor :: string
  TextColor :: string
  EnableText :: bool
  IsRandomOrder :: bool

text \<open>
  The program stops in two ways: \<^verbatim>\<open>log.Fatal\<close>/\<^verbatim>\<open>log.Fatalf\<close> (exit status 1) and a
  runtime panic (nil dereference, index out of range, integer division by zero).
\<close>

datatype error = Fatal string | Panic string

text \<open>
  A decoded image: the only attributes the program reads are its width and height.
\<close>

record Pixbuf =
  GetWidth :: int
  GetHeight :: int

text \<open>
  One call of the callback that \<^verbatim>\<open>filepath.Walk\<close> makes: the path, whether the file
  information says directory, and the error \<^verbatim>\<open>Walk\<close> passes along (\<open>None\<close> is \<^verbatim>\<open>nil\<close>).
\<close>

record visit =
  vPath :: string
  vIsDir :: bool
  vErr :: "string option"

text \<open>
  Everything outside the program: the file system, the YAML and \<^verbatim>\<open>fmt.Sscanf\<close>
  parsers, the random source, the toolkit and the \<^verbatim>\<open>float64\<close> operations. A pair
  \<open>(p, e)\<close> is Go's \<^verbatim>\<open>(value, error)\<close> result, with \<open>None\<close> for \<^verbatim>\<open>nil\<close>; a sum is a
  result of which the program only uses one side. The type \<open>'f\<close> stands for
  \<^verbatim>\<open>float64\<close>, whose operations are left uninterpreted.
\<close>

record 'f env =
  ReadFile :: "string \<Rightarrow> string + string"
  UnmarshalConfig :: "string \<Rightarrow> string + Config"
  UnmarshalManifest :: "string \<Rightarrow> string + Manifest"
  Sscanf :: "string \<Rightarrow> string + (8 word \<times> 8 word \<times> 8 word)"
  GtkError :: "string option"
  WalkVisits :: "string \<Rightarrow> visit list"
  Intn :: "nat \<Rightarrow> nat"
  PixbufNewFromFile :: "string \<Rightarrow> Pixbuf option \<times> string option"
  ScaleSimple :: "Pixbuf \<Rightarrow> int \<Rightarrow> int \<Rightarrow> Pixbuf option \<times> string option"
  WinGetSize :: "int \<times> int"
  float64 :: "int \<Rightarrow> 'f"
  fdiv :: "'f \<Rightarrow> 'f \<Rightarrow> 'f"
  fmul :: "'f \<Rightarrow> 'f \<Rightarrow> 'f"
  fmin :: "'f \<Rightarrow> 'f \<Rightarrow> 'f"
  toInt :: "'f \<Rightarrow> int"

section \<open>Loading the configuration and the manifest\<close>

definition loadManifest :: "'f env \<Rightarrow> string \<Rightarrow> string + Manifest" where
  "loadManifest w path =
     (case ReadFile w path of
        Inl err \<Rightarrow> Inl err
      | Inr data \<Rightarrow>
          (case UnmarshalManifest w data of
             Inl err \<Rightarrow> Inl err
           | Inr manifest \<Rightarrow> Inr manifest))"

definition loadConfig :: "'f env \<Rightarrow> string \<Rightarrow> string + Config" where
  "loadConfig w path =
     (case ReadFile w path of
        Inl err \<Rightarrow> Inl err
      | Inr data \<Rightarrow>
          (case UnmarshalConfig w data of
             Inl err \<Rightarrow> Inl err
           | Inr config \<Rightarrow> Inr config))"

section \<open>The image enumerator\<close>

text \<open>
  \<^verbatim>\<open>filepath.Ext\<close> of the Go standard library (Unix separator): scan from the last byte
  towards the front, stop at a separator, return the suffix that starts at the first dot
  met. \<open>ext_scan\<close> walks the reversed path and carries the bytes already passed.
\<close>

fun ext_scan :: "string \<Rightarrow> string \<Rightarrow> string" where
  "ext_scan [] acc = []"
| "ext_scan (c # cs) acc =
     (if c = CHR ''/'' then []
      else if c = CHR ''.'' then c # acc
      else ext_scan cs (c # acc))"

definition Ext :: "string \<Rightarrow> string" where
  "Ext path = ext_scan (rev path) []"

definition imageExts :: "string list" where
  "imageExts = [''.jpg'', ''.jpeg'', ''.png'', ''.gif'', ''.bmp'']"

text \<open>
  The walk callback of \<^verbatim>\<open>listImagesAsync\<close>, run over the visits in order: an error
  stops the walk and is what \<^verbatim>\<open>Walk\<close> returns; a non-directory with a listed extension
  is sent on \<^verbatim>\<open>imagesChan\<close>. The result is the sequence of paths sent and the error put on
  \<^verbatim>\<open>errChan\<close>.
\<close>

fun walkFn :: "visit list \<Rightarrow> string list \<times> string option" where
  "walkFn [] = ([], None)"
| "walkFn (v # vs) =
     (case vErr v of
        Some err \<Rightarrow> ([], Some err)
      | None \<Rightarrow>
          (let sent = (if \<not> vIsDir v \<and> Ext (vPath v) \<in> set imageExts then [vPath v] else []);
               rest = walkFn vs
           in (sent @ fst rest, snd rest)))"

definition listImagesAsync :: "'f env \<Rightarrow> string \<Rightarrow> string list \<times> string option" where
  "listImagesAsync w rootDir = walkFn (WalkVisits w rootDir)"

text \<open>
  \<^verbatim>\<open>rand.Shuffle(n, swap)\<close> of the Go standard library with the closure of
  \<^verbatim>\<open>listImages\<close> as \<^verbatim>\<open>swap\<close>: for \<open>i\<close> from \<open>n - 1\<close> down to \<open>1\<close>, draw \<open>j\<close> in
  \<open>[0, i]\<close> and exchange positions \<open>i\<close> and \<open>j\<close>. The draw made at counter \<open>i\<close> is
  \<open>pick i\<close>, reduced into the range that the library guarantees.
\<close>

definition swap :: "nat \<Rightarrow> nat \<Rightarrow> 'a list \<Rightarrow> 'a list" where
  "swap i j images = (images[i := images ! j])[j := images ! i]"

fun Shuffle_loop :: "(nat \<Rightarrow> nat) \<Rightarrow> nat \<Rightarrow> 'a list \<Rightarrow> 'a list" where
  "Shuffle_loop pick 0 images = images"
| "Shuffle_loop pick (Suc i) images =
     Shuffle_loop pick i (swap (Suc i) (pick (Suc i) mod Suc (Suc i)) images)"

definition Shuffle :: "(nat \<Rightarrow> nat) \<Rightarrow> 'a list \<Rightarrow> 'a list" where
  "Shuffle pick images = Shuffle_loop pick (length images - 1) images"

text \<open>
  \<^verbatim>\<open>listImages\<close>. The sender blocks on the unbuffered \<^verbatim>\<open>imagesChan\<close> until each path is
  received, and \<^verbatim>\<open>errChan\<close> receives its value and is closed only once the walk has
  returned; so the receiving loop appends every path sent, in the order sent, before it
  sees the error or the two closed channels. A walk error ends in \<^verbatim>\<open>log.Fatalf\<close>.
\<close>

definition receive :: "string list \<Rightarrow> string list" where
  "receive sent = foldl (\<lambda>images path. images @ [path]) [] sent"

definition listImages :: "'f env \<Rightarrow> string \<Rightarrow> bool \<Rightarrow> error + string list" where
  "listImages w path isRandomOrder =
     (case listImagesAsync w path of
        (sent, Some err) \<Rightarrow> Inl (Fatal (''Error listing images: '' @ err))
      | (sent, None) \<Rightarrow>
          (let images = receive sent
           in Inr (if isRandomOrder then Shuffle (Intn w) images else images)))"

text \<open>
  The enumeration in the words of the specification: the files of the walk whose
  extension is on the allow-list, in walk order.
\<close>

definition isImage :: "visit \<Rightarrow> bool" where
  "isImage v \<longleftrightarrow> \<not> vIsDir v \<and> Ext (vPath v) \<in> set imageExts"

definition walkOrder :: "'f env \<Rightarrow> string \<Rightarrow> string list" where
  "walkOrder w rootDir = map vPath (filter isImage (WalkVisits w rootDir))"

section \<open>The slideshow controller\<close>

text \<open>
  \<^verbatim>\<open>hexToRGB\<close>: the three bytes that \<^verbatim>\<open>Sscanf\<close> reads, each divided by \<^verbatim>\<open>255.0\<close>.
\<close>

definition hexToRGB :: "'f env \<Rightarrow> string \<Rightarrow> string + ('f \<times> 'f \<times> 'f)" where
  "hexToRGB w hexColor =
     (case Sscanf w hexColor of
        Inl err \<Rightarrow> Inl err
      | Inr (r, g, b) \<Rightarrow>
          Inr (fdiv w (float64 w (uint r)) (float64 w 255),
               fdiv w (float64 w (uint g)) (float64 w 255),
               fdiv w (float64 w (uint b)) (float64 w 255)))"

text \<open>
  The local variables of \<^verbatim>\<open>main\<close> that its closures capture and never assign again.
\<close>

record 'f app =
  contentDirectory :: string
  slideInterval :: "64 word"
  fillColor :: string
  enableText :: bool
  textColor :: string
  fillColorRGB :: "'f \<times> 'f \<times> 'f"
  manifestPath :: string
  manifest :: Manifest
  images :: "string list"

text \<open>
  The two widgets that \<^verbatim>\<open>main\<close> and \<^verbatim>\<open>updateImage\<close> attach to the overlay above the
  image: the drawing area that paints the caption band and the box with the title and
  description labels.
\<close>

datatype widget = DrawingArea | TextContainer

text \<open>
  The mutable state: \<^verbatim>\<open>currentIndex\<close>, the pixbuf set on the image widget, the markup
  of the two labels, the overlay's children, the widgets whose visible flag is set, and
  the timeout source (how many times \<^verbatim>\<open>glib.TimeoutAdd\<close> was called, and whether the
  source it registered is still pending). \<^verbatim>\<open>currentIndex\<close> is a Go \<^verbatim>\<open>int\<close>; the values
  it takes here stay far from the bounds of the machine type, so it is an unbounded
  integer.
\<close>

record gui =
  currentIndex :: int
  img :: "Pixbuf option"
  titleLabel :: string
  descLabel :: string
  overlay :: "widget list"
  visible :: "widget list"
  timeoutAdds :: nat
  timeoutPending :: bool

text \<open>
  The toolkit calls on the overlay. A widget is created hidden; \<^verbatim>\<open>Remove\<close> and
  \<^verbatim>\<open>AddOverlay\<close> change the overlay's children and leave the visible flags as they are;
  \<^verbatim>\<open>win.ShowAll()\<close> sets the flag of every widget that is inside the window when it is
  called. The labels are packed into the text container and share its fate.
\<close>

definition Remove :: "widget \<Rightarrow> gui \<Rightarrow> gui" where
  "Remove x g = g\<lparr>overlay := removeAll x (overlay g)\<rparr>"

definition AddOverlay :: "widget \<Rightarrow> gui \<Rightarrow> gui" where
  "AddOverlay x g = g\<lparr>overlay := overlay g @ [x]\<rparr>"

definition ShowAll :: "gui \<Rightarrow> gui" where
  "ShowAll g = g\<lparr>visible := remdups (visible g @ overlay g)\<rparr>"

text \<open>
  The caption overlay is on screen: the caption band and the label container are
  children of the overlay and both are visible.
\<close>

definition captionShown :: "gui \<Rightarrow> bool" where
  "captionShown g \<longleftrightarrow>
     DrawingArea \<in> set (overlay g) \<and> TextContainer \<in> set (overlay g)
     \<and> DrawingArea \<in> set (visible g) \<and> TextContainer \<in> set (visible g)"

definition markup :: "string \<Rightarrow> string \<Rightarrow> string \<Rightarrow> string" where
  \<open>markup color font text =
     ''<span foreground="'' @ color @ ''" font="'' @ font @ ''">'' @ text @ ''</span>''\<close>

text \<open>The \<^verbatim>\<open>range\<close> loop over the manifest entries, left at the first match.\<close>

fun captionLoop :: "string \<Rightarrow> string \<Rightarrow> Entry list \<Rightarrow> gui \<Rightarrow> gui" where
  "captionLoop color imagePath [] g = g"
| "captionLoop color imagePath (entry # entries) g =
     (if ImagePath entry = imagePath
      then AddOverlay TextContainer (AddOverlay DrawingArea
             (g\<lparr>titleLabel := markup color ''24'' (Title entry),
                descLabel := markup color ''20'' (Description entry)\<rparr>))
      else captionLoop color imagePath entries g)"

text \<open>
  A cleanup closure is the list of pixbuf pointers it dereferences and unreferences;
  the closure with an empty body is the empty list. Dereferencing \<^verbatim>\<open>nil\<close> panics.
\<close>

type_synonym cleanup = "Pixbuf option list"

definition runCleanup :: "cleanup \<Rightarrow> error + unit" where
  "runCleanup c =
     (if None \<in> set c then Inl (Panic ''invalid memory address or nil pointer dereference'')
      else Inr ())"

text \<open>
  \<^verbatim>\<open>updateImage\<close>. \<^verbatim>\<open>textCardHeight\<close> is the constant \<^verbatim>\<open>150.0\<close>, so
  \<^verbatim>\<open>int(textCardHeight)\<close> is \<open>150\<close>.
\<close>

definition updateImage :: "'f env \<Rightarrow> 'f app \<Rightarrow> gui \<Rightarrow> error + (cleanup \<times> gui)" where
  "updateImage w a g0 =
     (let g = (if currentIndex g0 < 0 \<or> currentIndex g0 \<ge> int (length (images a))
               then g0\<lparr>currentIndex := 0\<rparr> else g0)
      in if images a = [] then Inl (Panic ''index out of range'')
      else
        (let imagePath = images a ! nat (currentIndex g)
         in case PixbufNewFromFile w imagePath of
              (pixbuf, Some err) \<Rightarrow> Inr ([pixbuf], g)
            | (None, None) \<Rightarrow> Inr ([], g)
            | (Some pixbuf, None) \<Rightarrow>
                (let origWidth = GetWidth pixbuf;
                     origHeight = GetHeight pixbuf
                 in if origWidth = 0 \<or> origHeight = 0 then Inr ([Some pixbuf], g)
                 else
                   (let width = fst (WinGetSize w);
                        height = snd (WinGetSize w) - 150;
                        scale = fmin w (fdiv w (float64 w width) (float64 w origWidth))
                                       (fdiv w (float64 w height) (float64 w origHeight));
                        destWidth = toInt w (fmul w (float64 w origWidth) scale);
                        destHeight = toInt w (fmul w (float64 w origHeight) scale)
                    in case ScaleSimple w pixbuf destWidth destHeight of
                         (scaledPixbuf, Some err) \<Rightarrow>
                           Inl (Fatal (''Unable to scale pixbuf:'' @ err))
                       | (scaledPixbuf, None) \<Rightarrow>
                           (let g1 = g\<lparr>img := scaledPixbuf\<rparr>;
                                g2 = (if enableText a
                                      then captionLoop (textColor a) imagePath
                                             (Entries (manifest a))
                                             (Remove TextContainer (Remove DrawingArea
                                                (g1\<lparr>titleLabel := [], descLabel := []\<rparr>)))
                                      else g1)
                            in Inr ([Some pixbuf, scaledPixbuf], g2))))))"

text \<open>The two statements \<^verbatim>\<open>cleanup := updateImage(); cleanup()\<close> that every caller runs.\<close>

definition updateAndCleanup :: "'f env \<Rightarrow> 'f app \<Rightarrow> gui \<Rightarrow> error + gui" where
  "updateAndCleanup w a g =
     (case updateImage w a g of
        Inl e \<Rightarrow> Inl e
      | Inr (cleanup, g') \<Rightarrow>
          (case runCleanup cleanup of Inl e \<Rightarrow> Inl e | Inr u \<Rightarrow> Inr g'))"

text \<open>
  The statement \<^verbatim>\<open>currentIndex = (currentIndex + 1) % len(images)\<close> of the three
  callbacks. Go's \<^verbatim>\<open>%\<close> truncates (\<open>smod\<close>) and panics on a zero divisor.
\<close>

definition advance :: "'f app \<Rightarrow> gui \<Rightarrow> error + gui" where
  "advance a g =
     (if images a = [] then Inl (Panic ''integer divide by zero'')
      else Inr (g\<lparr>currentIndex := (currentIndex g + 1) smod int (length (images a))\<rparr>))"

text \<open>
  The callback given to \<^verbatim>\<open>glib.TimeoutAdd\<close>. It returns \<^verbatim>\<open>false\<close>, which removes the
  timeout source.
\<close>

definition timeoutCallback :: "'f env \<Rightarrow> 'f app \<Rightarrow> gui \<Rightarrow> error + gui" where
  "timeoutCallback w a g =
     (case advance a g of
        Inl e \<Rightarrow> Inl e
      | Inr g1 \<Rightarrow>
          (case updateAndCleanup w a g1 of
             Inl e \<Rightarrow> Inl e
           | Inr g2 \<Rightarrow> Inr (g2\<lparr>timeoutPending := False\<rparr>)))"

datatype key = KEY_space | KEY_Right | KEY_Left | KEY_other

text \<open>The \<^verbatim>\<open>key-press-event\<close> handler: the \<^verbatim>\<open>switch\<close>, then the redraw for every key.\<close>

definition keyPressHandler :: "'f env \<Rightarrow> 'f app \<Rightarrow> key \<Rightarrow> gui \<Rightarrow> error + gui" where
  "keyPressHandler w a keyVal g =
     (case (case keyVal of
              KEY_space \<Rightarrow> advance a g
            | KEY_Right \<Rightarrow> advance a g
            | KEY_Left \<Rightarrow>
                Inr (if currentIndex g = 0
                     then g\<lparr>currentIndex := int (length (images a)) - 1\<rparr>
                     else g\<lparr>currentIndex := currentIndex g - 1\<rparr>)
            | KEY_other \<Rightarrow> Inr g) of
        Inl e \<Rightarrow> Inl e
      | Inr g1 \<Rightarrow> updateAndCleanup w a g1)"

text \<open>The \<^verbatim>\<open>button-press-event\<close> handler.\<close>

definition buttonPressHandler :: "'f env \<Rightarrow> 'f app \<Rightarrow> gui \<Rightarrow> error + gui" where
  "buttonPressHandler w a g =
     (case advance a g of
        Inl e \<Rightarrow> Inl e
      | Inr g1 \<Rightarrow> updateAndCleanup w a g1)"

text \<open>
  The widgets and variables as \<^verbatim>\<open>main\<close> has set them up when it first calls
  \<^verbatim>\<open>updateImage\<close>: index \<open>0\<close>, an empty image, empty labels, the drawing area and the text
  container added to the overlay, nothing shown yet, and the timeout registered by the one
  call of \<^verbatim>\<open>glib.TimeoutAdd\<close> (\<^verbatim>\<open>timeoutID\<close> is zero when it is tested, so no source is
  removed).
\<close>

definition initialGui :: gui where
  "initialGui =
     \<lparr>currentIndex = 0, img = None, titleLabel = [], descLabel = [],
      overlay = [DrawingArea, TextContainer], visible = [],
      timeoutAdds = 1, timeoutPending = True\<rparr>"

text \<open>
  \<^verbatim>\<open>main\<close> up to the start of the event loop. The widget constructors that can fail
  (\<^verbatim>\<open>log.Fatal\<close>) all run between loading the manifest and listing the images. The one
  call of \<^verbatim>\<open>win.ShowAll()\<close> follows the first \<^verbatim>\<open>updateImage\<close> and its cleanup.
\<close>

definition main :: "'f env \<Rightarrow> error + ('f app \<times> gui)" where
  "main w =
     (case loadConfig w ''config.yaml'' of
        Inl err \<Rightarrow> Inl (Fatal (''Failed to load config: '' @ err))
      | Inr config \<Rightarrow>
          (let contentDirectory =
                 (if ContentDirectory config = [] then ''./content''
                  else ContentDirectory config);
               slideInterval = SlideInterval config * 1000;
               slideInterval = (if slideInterval = 0 then 30000 else slideInterval);
               fillColor = (if FillColor config = [] then ''#ADD8E6'' else FillColor config);
               enableText = EnableText config;
               textColor = (if TextColor config = [] then ''#000000'' else TextColor config)
           in case hexToRGB w fillColor of
                Inl err \<Rightarrow> Inl (Fatal err)
              | Inr rgb \<Rightarrow>
                  (let manifestPath =
                         (if ManifestPath config = [] then ''./manifest.yaml''
                          else ManifestPath config)
                   in case loadManifest w manifestPath of
                        Inl err \<Rightarrow> Inl (Fatal (''Failed to load manifest: '' @ err))
                      | Inr m \<Rightarrow>
                          (case GtkError w of
                             Some err \<Rightarrow> Inl (Fatal err)
                           | None \<Rightarrow>
                               (case listImages w contentDirectory (IsRandomOrder config) of
                                  Inl e \<Rightarrow> Inl e
                                | Inr paths \<Rightarrow>
                                    (let a = \<lparr>contentDirectory = contentDirectory,
                                              slideInterval = slideInterval,
                                              fillColor = fillColor,
                                              enableText = enableText,
                                              textColor = textColor,
                                              fillColorRGB = rgb,
                                              manifestPath = manifestPath,
                                              manifest = m,
                                              images = paths\<rparr>;
                                         g = initialGui
                                     in case updateAndCleanup w a g of
                                          Inl e \<Rightarrow> Inl e
                                        | Inr g' \<Rightarrow> Inr (a, ShowAll g')))))))"

text \<open>
  The event loop: the events that reach the three callbacks. A timeout source that is
  no longer pending does not fire.
\<close>

datatype event = TimerFire | KeyPress key | ButtonPress

fun step :: "'f env \<Rightarrow> 'f app \<Rightarrow> event \<Rightarrow> gui \<Rightarrow> error + gui" where
  "step w a TimerFire g = (if timeoutPending g then timeoutCallback w a g else Inr g)"
| "step w a (KeyPress keyVal) g = keyPressHandler w a keyVal g"
| "step w a ButtonPress g = buttonPressHandler w a g"

fun events :: "'f env \<Rightarrow> 'f app \<Rightarrow> event list \<Rightarrow> gui \<Rightarrow> error + gui" where
  "events w a [] g = Inr g"
| "events w a (e # es) g =
     (case step w a e g of Inl err \<Rightarrow> Inl err | Inr g' \<Rightarrow> events w a es g')"

definition run :: "'f env \<Rightarrow> event list \<Rightarrow> error + ('f app \<times> gui)" where
  "run w es =
     (case main w of
        Inl err \<Rightarrow> Inl err
      | Inr (a, g) \<Rightarrow>
          (case events w a es g of Inl err \<Rightarrow> Inl err | Inr g' \<Rightarrow> Inr (a, g')))"

section \<open>A concrete installation\<close>

text \<open>
  A content directory with two images and a text file, a manifest with a caption for the
  first image, and a configuration that leaves every optional field out. Exact
  rational arithmetic stands in for \<^verbatim>\<open>float64\<close>.
\<close>

definition demoConfig :: Config where
  "demoConfig =
     \<lparr>ContentDirectory = [], ManifestPath = [], SlideInterval = 5, FillColor = [],
      TextColor = [], EnableText = True, IsRandomOrder = False\<rparr>"

definition demoManifest :: Manifest where
  "demoManifest =
     \<lparr>Entries = [\<lparr>ID = ''1'', Title = ''Cover'', ImagePath = ''content/a.png'',
                  Description = ''First page''\<rparr>]\<rparr>"

definition demoVisits :: "visit list" where
  "demoVisits =
     [\<lparr>vPath = ''content'', vIsDir = True, vErr = None\<rparr>,
      \<lparr>vPath = ''content/a.png'', vIsDir = False, vErr = None\<rparr>,
      \<lparr>vPath = ''content/b.jpg'', vIsDir = False, vErr = None\<rparr>,
      \<lparr>vPath = ''content/notes.txt'', vIsDir = False, vErr = None\<rparr>]"

definition demoReadFile :: "string \<Rightarrow> string + string" where
  "demoReadFile path =
     (if path = ''config.yaml'' then Inr ''config''
      else if path = ''./manifest.yaml'' then Inr ''manifest''
      else Inl ''no such file or directory'')"

definition truncate :: "rat \<Rightarrow> int" where
  "truncate x = (if 0 \<le> x then \<lfloor>x\<rfloor> else \<lceil>x\<rceil>)"

definition demoEnv :: "Config \<Rightarrow> rat env" where
  "demoEnv config =
     \<lparr>ReadFile = demoReadFile,
      UnmarshalConfig = (\<lambda>data. Inr config),
      UnmarshalManifest = (\<lambda>data. Inr demoManifest),
      Sscanf = (\<lambda>hexColor. Inr (0xAD, 0xD8, 0xE6)),
      GtkError = None,
      WalkVisits = (\<lambda>rootDir. demoVisits),
      Intn = (\<lambda>i. 0),
      PixbufNewFromFile = (\<lambda>filename. (Some \<lparr>GetWidth = 800, GetHeight = 600\<rparr>, None)),
      ScaleSimple = (\<lambda>pixbuf destWidth destHeight.
                       (Some \<lparr>GetWidth = destWidth, GetHeight = destHeight\<rparr>, None)),
      WinGetSize = (1920, 1080),
      float64 = of_int,
      fdiv = (/),
      fmul = (*),
      fmin = min,
      toInt = truncate\<rparr>"

text \<open>
  What \<^verbatim>\<open>main\<close> computes there: the captured variables, and the state once the first
  image (800 by 600, scaled into 1920 by 930) is on screen with its caption.
\<close>

definition demoApp :: "rat app" where
  "demoApp =
     \<lparr>contentDirectory = ''./content'', slideInterval = 5000, fillColor = ''#ADD8E6'',
      enableText = True, textColor = ''#000000'',
      fillColorRGB = (173 / 255, 216 / 255, 230 / 255),
      manifestPath = ''./manifest.yaml'', manifest = demoManifest,
      images = [''content/a.png'', ''content/b.jpg'']\<rparr>"

definition demoGui :: gui where
  "demoGui =
     \<lparr>currentIndex = 0, img = Some \<lparr>GetWidth = 1240, GetHeight = 930\<rparr>,
      titleLabel = markup ''#000000'' ''24'' ''Cover'',
      descLabel = markup ''#000000'' ''20'' ''First page'',
      overlay = [DrawingArea, TextContainer], visible = [DrawingArea, TextContainer],
      timeoutAdds = 1, timeoutPending = True\<rparr>"

text \<open>The same installation with a second image file that cannot be decoded.\<close>

definition brokenEnv :: "rat env" where
  "brokenEnv =
     (demoEnv demoConfig)
       \<lparr>PixbufNewFromFile :=
          (\<lambda>filename.
             if filename = ''content/b.jpg'' then (None, Some ''unrecognized image file format'')
             else (Some \<lparr>GetWidth = 800, GetHeight = 600\<rparr>, None))\<rparr>"

text \<open>The same installation with the captions switched off.\<close>

definition plainConfig :: Config where
  "plainConfig = demoConfig\<lparr>EnableText := False\<rparr>"

text \<open>
  The same installation with a manifest that has a caption for the second image only.
\<close>

definition lateManifest :: Manifest where
  "lateManifest =
     \<lparr>Entries = [\<lparr>ID = ''2'', Title = ''Back'', ImagePath = ''content/b.jpg'',
                  Description = ''Last page''\<rparr>]\<rparr>"

definition lateEnv :: "rat env" where
  "lateEnv = (demoEnv demoConfig)\<lparr>UnmarshalManifest := (\<lambda>data. Inr lateManifest)\<rparr>"

text \<open>
  Two configurations whose \<^verbatim>\<open>slide_interval\<close> times \<open>1000\<close> does not fit into 64 bits:
  \<open>2 ^ 61\<close> seconds, and a little more than \<open>2 ^ 64 / 1000\<close> seconds.
\<close>

definition zeroProductConfig :: Config where
  "zeroProductConfig = demoConfig\<lparr>SlideInterval := 2305843009213693952\<rparr>"

definition wrappedConfig :: Config where
  "wrappedConfig = demoConfig\<lparr>SlideInterval := 18446744073709552\<rparr>"

text \<open>Installations without a configuration file, and without a manifest file.\<close>

definition noConfigEnv :: "rat env" where
  "noConfigEnv =
     (demoEnv demoConfig)
       \<lparr>ReadFile := (\<lambda>path. if path = ''./manifest.yaml'' then Inr ''manifest''
                            else Inl ''no such file or directory'')\<rparr>"

definition noManifestEnv :: "rat env" where
  "noManifestEnv =
     (demoEnv demoConfig)
       \<lparr>ReadFile := (\<lambda>path. if path = ''config.yaml'' then Inr ''config''
                            else Inl ''no such file or directory'')\<rparr>"

section \<open>Predicates on the state\<close>

text \<open>The index addresses an element of the image list.\<close>

definition inRange :: "'f app \<Rightarrow> gui \<Rightarrow> bool" where
  "inRange a g \<longleftrightarrow> 0 \<le> currentIndex g \<and> currentIndex g < int (length (images a))"

text \<open>
  The specification's condition for the caption: \<^verbatim>\<open>enable_text\<close> is true and some
  manifest entry's \<^verbatim>\<open>image_path\<close> equals the path of the current image.
\<close>

definition captionClaim :: "'f app \<Rightarrow> gui \<Rightarrow> bool" where
  "captionClaim a g \<longleftrightarrow>
     enableText a
     \<and> images a ! nat (currentIndex g) \<in> ImagePath ` set (Entries (manifest a))"

text \<open>
  The specification's slide interval in milliseconds: \<open>30000\<close> for a zero
  \<^verbatim>\<open>slide_interval\<close>, otherwise the configured seconds times \<open>1000\<close>.
\<close>

definition slideIntervalClaim :: "Config \<Rightarrow> nat" where
  "slideIntervalClaim config =
     (if SlideInterval config = 0 then 30000 else unat (SlideInterval config) * 1000)"

section \<open>Facts about the enumerator\<close>

lemma receive_eq: "receive sent = sent"
proof -
  have "foldl (\<lambda>images path. images @ [path]) acc sent = acc @ sent" for acc
    by (induction sent arbitrary: acc) simp_all
  then show ?thesis by (simp add: receive_def)
qed

lemma ext_scan_suffix: "suffix (ext_scan cs acc) (rev cs @ acc)"
proof (induction cs arbitrary: acc)
  case Nil
  then show ?case by simp
next
  case (Cons c cs)
  have "suffix (c # acc) (rev cs @ c # acc)"
    by (rule suffix_appendI) simp
  moreover have "suffix (ext_scan cs (c # acc)) (rev cs @ c # acc)"
    using Cons.IH [of "c # acc"] .
  ultimately show ?case by auto
qed

lemma Ext_suffix: "suffix (Ext path) path"
  using ext_scan_suffix [of "rev path" "[]"] by (simp add: Ext_def)

lemma walkFn_sent_images: "p \<in> set (fst (walkFn vs)) \<Longrightarrow> Ext p \<in> set imageExts"
  by (induction vs) (auto simp: Let_def split: option.splits if_splits)

lemma walkFn_no_error: "snd (walkFn vs) = None \<Longrightarrow> fst (walkFn vs) = map vPath (filter isImage vs)"
  by (induction vs) (auto simp: Let_def isImage_def split: option.splits)

lemma swap_length: "length (swap i j xs) = length xs"
  by (simp add: swap_def)

lemma swap_mset: "i < length xs \<Longrightarrow> j < length xs \<Longrightarrow> mset (swap i j xs) = mset xs"
  unfolding swap_def by (rule mset_swap)

lemma Shuffle_loop_length: "length (Shuffle_loop pick i xs) = length xs"
  by (induction i arbitrary: xs) (simp_all add: swap_length)

lemma Shuffle_loop_mset: "i < length xs \<Longrightarrow> mset (Shuffle_loop pick i xs) = mset xs"
proof (induction i arbitrary: xs)
  case 0
  then show ?case by simp
next
  case (Suc i)
  let ?j = "pick (Suc i) mod Suc (Suc i)"
  have j: "?j < length xs"
  proof -
    have "?j < Suc (Suc i)" by simp
    with Suc.prems show ?thesis by linarith
  qed
  have "mset (Shuffle_loop pick i (swap (Suc i) ?j xs)) = mset (swap (Suc i) ?j xs)"
    using Suc.prems by (intro Suc.IH) (simp add: swap_length)
  also have "\<dots> = mset xs"
    using Suc.prems j by (rule swap_mset)
  finally show ?case by simp
qed

lemma Shuffle_length: "length (Shuffle pick xs) = length xs"
  by (simp add: Shuffle_def Shuffle_loop_length)

lemma Shuffle_mset: "mset (Shuffle pick xs) = mset xs"
proof (cases xs)
  case Nil
  then show ?thesis by (simp add: Shuffle_def)
next
  case (Cons x xs')
  then show ?thesis by (simp add: Shuffle_def Shuffle_loop_mset)
qed

lemma Shuffle_set: "set (Shuffle pick xs) = set xs"
  using Shuffle_mset [of pick xs] by (metis set_mset_mset)

lemma demo_listImages:
  "listImages (demoEnv config) rootDir False = Inr [''content/a.png'', ''content/b.jpg'']"
  by (simp add: listImages_def listImagesAsync_def demoEnv_def demoVisits_def Ext_def
      imageExts_def receive_def)

lemma demo_listImagesAsync:
  "listImagesAsync (demoEnv config) rootDir = ([''content/a.png'', ''content/b.jpg''], None)"
  by (simp add: listImagesAsync_def demoEnv_def demoVisits_def Ext_def imageExts_def)

section \<open>Facts about the controller\<close>

lemma captionLoop_index [simp]:
  "currentIndex (captionLoop color imagePath entries g) = currentIndex g"
  by (induction entries) (simp_all add: AddOverlay_def)

lemma captionLoop_timeout [simp]:
  "timeoutAdds (captionLoop color imagePath entries g) = timeoutAdds g"
  "timeoutPending (captionLoop color imagePath entries g) = timeoutPending g"
  by (induction entries) (simp_all add: AddOverlay_def)

lemma updateImage_index:
  assumes "updateImage w a g = Inr (c, g')"
  shows "images a \<noteq> []
         \<and> currentIndex g' =
             (if currentIndex g < 0 \<or> currentIndex g \<ge> int (length (images a)) then 0
              else currentIndex g)"
  using assms unfolding updateImage_def
  by (auto simp: Let_def Remove_def split: if_splits prod.splits option.splits)

lemma updateAndCleanup_index:
  assumes "updateAndCleanup w a g = Inr g'"
  shows "images a \<noteq> []
         \<and> currentIndex g' =
             (if currentIndex g < 0 \<or> currentIndex g \<ge> int (length (images a)) then 0
              else currentIndex g)"
  using assms updateImage_index [of w a g] unfolding updateAndCleanup_def
  by (auto split: sum.splits prod.splits)

lemma advance_index:
  assumes "advance a g = Inr g1" "0 \<le> currentIndex g"
  shows "images a \<noteq> [] \<and> currentIndex g1 = (currentIndex g + 1) mod int (length (images a))"
  using assms unfolding advance_def
  by (auto simp: smod_mod_positive split: if_splits)

lemma mod_in_range: "0 < (n::int) \<Longrightarrow> 0 \<le> k mod n \<and> k mod n < n"
  by simp

lemma timeoutCallback_index:
  assumes "timeoutCallback w a g = Inr g'" "0 \<le> currentIndex g"
  shows "currentIndex g' = (currentIndex g + 1) mod int (length (images a))"
proof -
  from assms(1) obtain g1 g2 where
    adv: "advance a g = Inr g1" and upd: "updateAndCleanup w a g1 = Inr g2"
    and g': "g' = g2\<lparr>timeoutPending := False\<rparr>"
    unfolding timeoutCallback_def by (auto split: sum.splits)
  from advance_index [OF adv assms(2)] have ne: "images a \<noteq> []"
    and i1: "currentIndex g1 = (currentIndex g + 1) mod int (length (images a))" by simp_all
  from ne have "0 < int (length (images a))" by simp
  from mod_in_range [OF this, of "currentIndex g + 1"] i1
  have "0 \<le> currentIndex g1 \<and> currentIndex g1 < int (length (images a))" by simp
  with updateAndCleanup_index [OF upd] have "currentIndex g2 = currentIndex g1" by simp
  with g' i1 show ?thesis by simp
qed

lemma buttonPressHandler_index:
  assumes "buttonPressHandler w a g = Inr g'" "0 \<le> currentIndex g"
  shows "currentIndex g' = (currentIndex g + 1) mod int (length (images a))"
proof -
  from assms(1) obtain g1 where
    adv: "advance a g = Inr g1" and upd: "updateAndCleanup w a g1 = Inr g'"
    unfolding buttonPressHandler_def by (auto split: sum.splits)
  from advance_index [OF adv assms(2)] have ne: "images a \<noteq> []"
    and i1: "currentIndex g1 = (currentIndex g + 1) mod int (length (images a))" by simp_all
  from ne have "0 < int (length (images a))" by simp
  from mod_in_range [OF this, of "currentIndex g + 1"] i1
  have "0 \<le> currentIndex g1 \<and> currentIndex g1 < int (length (images a))" by simp
  with updateAndCleanup_index [OF upd] have "currentIndex g' = currentIndex g1" by simp
  with i1 show ?thesis by simp
qed

lemma keyPressHandler_forward_index:
  assumes "keyPressHandler w a keyVal g = Inr g'" "keyVal = KEY_space \<or> keyVal = KEY_Right"
    "0 \<le> currentIndex g"
  shows "currentIndex g' = (currentIndex g + 1) mod int (length (images a))"
proof -
  from assms(1,2) obtain g1 where
    adv: "advance a g = Inr g1" and upd: "updateAndCleanup w a g1 = Inr g'"
    unfolding keyPressHandler_def by (auto split: sum.splits)
  from advance_index [OF adv assms(3)] have ne: "images a \<noteq> []"
    and i1: "currentIndex g1 = (currentIndex g + 1) mod int (length (images a))" by simp_all
  from ne have "0 < int (length (images a))" by simp
  from mod_in_range [OF this, of "currentIndex g + 1"] i1
  have "0 \<le> currentIndex g1 \<and> currentIndex g1 < int (length (images a))" by simp
  with updateAndCleanup_index [OF upd] have "currentIndex g' = currentIndex g1" by simp
  with i1 show ?thesis by simp
qed

lemma keyPressHandler_Left_index:
  assumes "keyPressHandler w a KEY_Left g = Inr g'"
    "0 \<le> currentIndex g" "currentIndex g < int (length (images a))"
  shows "currentIndex g' =
           (if currentIndex g = 0 then int (length (images a)) - 1 else currentIndex g - 1)"
  using assms
    updateAndCleanup_index [of w a "g\<lparr>currentIndex := int (length (images a)) - 1\<rparr>" g']
    updateAndCleanup_index [of w a "g\<lparr>currentIndex := currentIndex g - 1\<rparr>" g']
  unfolding keyPressHandler_def
  by (auto split: if_splits)

lemma keyPressHandler_other_index:
  assumes "keyPressHandler w a KEY_other g = Inr g'"
    "0 \<le> currentIndex g" "currentIndex g < int (length (images a))"
  shows "currentIndex g' = currentIndex g"
  using assms updateAndCleanup_index [of w a g g']
  unfolding keyPressHandler_def
  by (auto split: if_splits)

lemma step_inRange:
  assumes "step w a e g = Inr g'" "inRange a g"
  shows "inRange a g'"
proof -
  from assms(2) have lo: "0 \<le> currentIndex g" and hi: "currentIndex g < int (length (images a))"
    by (simp_all add: inRange_def)
  from lo hi have pos: "0 < int (length (images a))" by linarith
  note m = mod_in_range [OF pos, of "currentIndex g + 1"]
  show ?thesis
  proof (cases e)
    case TimerFire
    show ?thesis
    proof (cases "timeoutPending g")
      case True
      with TimerFire assms(1) have "timeoutCallback w a g = Inr g'" by simp
      from timeoutCallback_index [OF this lo] m show ?thesis by (simp add: inRange_def)
    next
      case False
      with TimerFire assms show ?thesis by simp
    qed
  next
    case (KeyPress keyVal)
    with assms(1) have k: "keyPressHandler w a keyVal g = Inr g'" by simp
    show ?thesis
    proof (cases keyVal)
      case KEY_space
      with keyPressHandler_forward_index [OF k _ lo] m show ?thesis by (simp add: inRange_def)
    next
      case KEY_Right
      with keyPressHandler_forward_index [OF k _ lo] m show ?thesis by (simp add: inRange_def)
    next
      case KEY_Left
      with keyPressHandler_Left_index [OF _ lo hi] k lo hi show ?thesis
        by (auto simp: inRange_def)
    next
      case KEY_other
      with keyPressHandler_other_index [OF _ lo hi] k lo hi show ?thesis
        by (auto simp: inRange_def)
    qed
  next
    case ButtonPress
    with assms(1) have "buttonPressHandler w a g = Inr g'" by simp
    from buttonPressHandler_index [OF this lo] m show ?thesis by (simp add: inRange_def)
  qed
qed

lemma events_inRange:
  "events w a es g = Inr g' \<Longrightarrow> inRange a g \<Longrightarrow> inRange a g'"
proof (induction es arbitrary: g)
  case Nil
  then show ?case by simp
next
  case (Cons e es)
  from Cons.prems(1) obtain g1 where s: "step w a e g = Inr g1" and r: "events w a es g1 = Inr g'"
    by (auto split: sum.splits)
  from step_inRange [OF s Cons.prems(2)] have "inRange a g1" .
  with Cons.IH [OF r] show ?case .
qed

lemma main_Inr:
  assumes "main w = Inr (a, g)"
  shows "\<exists>g0. updateAndCleanup w a initialGui = Inr g0 \<and> g = ShowAll g0"
  using assms unfolding main_def
  by (auto simp: Let_def split: sum.splits option.splits split del: if_split)

lemma main_inRange:
  assumes "main w = Inr (a, g)"
  shows "inRange a g"
proof -
  from main_Inr [OF assms] obtain g0 where
    u: "updateAndCleanup w a initialGui = Inr g0" and g: "g = ShowAll g0" by blast
  from updateAndCleanup_index [OF u] g show ?thesis
    by (auto simp: inRange_def initialGui_def ShowAll_def)
qed

section \<open>Facts about startup\<close>

lemma loadConfig_error:
  "(\<exists>err. loadConfig w path = Inl err) \<longleftrightarrow>
     (\<exists>err. ReadFile w path = Inl err)
     \<or> (\<exists>data err. ReadFile w path = Inr data \<and> UnmarshalConfig w data = Inl err)"
  unfolding loadConfig_def by (auto split: sum.splits)

lemma loadManifest_error:
  "(\<exists>err. loadManifest w path = Inl err) \<longleftrightarrow>
     (\<exists>err. ReadFile w path = Inl err)
     \<or> (\<exists>data err. ReadFile w path = Inr data \<and> UnmarshalManifest w data = Inl err)"
  unfolding loadManifest_def by (auto split: sum.splits)

lemma main_config_error:
  assumes "loadConfig w ''config.yaml'' = Inl err"
  shows "main w = Inl (Fatal (''Failed to load config: '' @ err))"
  using assms unfolding main_def by simp

lemma main_manifest_error:
  assumes "loadConfig w ''config.yaml'' = Inr config"
    and "loadManifest w (if ManifestPath config = [] then ''./manifest.yaml''
                         else ManifestPath config) = Inl err"
  shows "\<exists>msg. main w = Inl (Fatal msg)"
  using assms unfolding main_def
  by (simp add: Let_def split: sum.splits split del: if_split)

lemma run_main_error: "main w = Inl e \<Longrightarrow> run w es = Inl e"
  unfolding run_def by simp

lemma main_settings:
  assumes "main w = Inr (a, g)"
  shows "\<exists>config. loadConfig w ''config.yaml'' = Inr config
           \<and> contentDirectory a =
               (if ContentDirectory config = [] then ''./content'' else ContentDirectory config)
           \<and> slideInterval a =
               (if SlideInterval config * 1000 = 0 then 30000 else SlideInterval config * 1000)
           \<and> fillColor a = (if FillColor config = [] then ''#ADD8E6'' else FillColor config)
           \<and> textColor a = (if TextColor config = [] then ''#000000'' else TextColor config)
           \<and> manifestPath a =
               (if ManifestPath config = [] then ''./manifest.yaml'' else ManifestPath config)
           \<and> enableText a = EnableText config
           \<and> hexToRGB w (fillColor a) = Inr (fillColorRGB a)
           \<and> loadManifest w (manifestPath a) = Inr (manifest a)
           \<and> listImages w (contentDirectory a) (IsRandomOrder config) = Inr (images a)"
  using assms unfolding main_def
  by (auto simp: Let_def split: sum.splits option.splits split del: if_split)

lemma unat_times_1000:
  fixes s :: "64 word"
  assumes "unat s * 1000 < 2 ^ 64"
  shows "unat (s * 1000) = unat s * 1000"
  using assms by (simp add: unat_word_ariths)

lemma slideInterval_small:
  fixes s :: "64 word"
  assumes "unat s * 1000 < 2 ^ 64"
  shows "unat (if s * 1000 = 0 then 30000 else s * 1000)
           = (if s = 0 then 30000 else unat s * 1000)"
proof (cases "s = 0")
  case True
  then show ?thesis by simp
next
  case False
  then have "unat s \<noteq> 0" by (simp add: unat_eq_0)
  with unat_times_1000 [OF assms] have "unat (s * 1000) \<noteq> 0" by simp
  then have "s * 1000 \<noteq> 0" by (metis unat_0)
  with False unat_times_1000 [OF assms] show ?thesis by simp
qed

lemma demo_loadConfig: "loadConfig (demoEnv c) ''config.yaml'' = Inr c"
  by (simp add: loadConfig_def demoEnv_def demoReadFile_def)

lemma demo_loadManifest: "loadManifest (demoEnv c) ''./manifest.yaml'' = Inr demoManifest"
  by (simp add: loadManifest_def demoEnv_def demoReadFile_def)

lemma demo_hexToRGB: "hexToRGB (demoEnv c) hexColor = Inr (173 / 255, 216 / 255, 230 / 255)"
  by (simp add: hexToRGB_def demoEnv_def)

lemma demo_GtkError: "GtkError (demoEnv c) = None"
  by (simp add: demoEnv_def)

lemma demo_first_image:
  assumes "images a = [''content/a.png'', ''content/b.jpg'']" and "enableText a"
    and "textColor a = ''#000000''" and "manifest a = demoManifest"
  shows "updateAndCleanup (demoEnv c) a initialGui = Inr (demoGui\<lparr>visible := []\<rparr>)"
  using assms
  by (simp add: updateAndCleanup_def updateImage_def runCleanup_def Remove_def AddOverlay_def
      initialGui_def Let_def demoEnv_def demoManifest_def truncate_def demoGui_def)

lemma demo_ShowAll: "ShowAll (demoGui\<lparr>visible := []\<rparr>) = demoGui"
  by (simp add: ShowAll_def demoGui_def)

lemma demo_main_interval:
  "main (demoEnv (demoConfig\<lparr>SlideInterval := s\<rparr>))
     = Inr (demoApp\<lparr>slideInterval := (if s * 1000 = 0 then 30000 else s * 1000)\<rparr>, demoGui)"
  by (simp add: main_def demo_loadConfig demo_loadManifest demo_hexToRGB demo_GtkError
      demo_listImages demo_first_image demo_ShowAll Let_def demoConfig_def demoApp_def)

section \<open>The enumerator returns images only, in walk order\<close>

text \<open>
  Claim C5. Every path that \<^verbatim>\<open>listImages\<close> returns has the extension \<^verbatim>\<open>.jpg\<close>,
  \<^verbatim>\<open>.jpeg\<close>, \<^verbatim>\<open>.png\<close>, \<^verbatim>\<open>.gif\<close> or \<^verbatim>\<open>.bmp\<close> (the extension being a suffix of the
  path), and without the shuffle the paths are the image files of the directory walk in
  the order of the walk.
\<close>

theorem listImages_extensions_and_order:
  assumes "listImages w rootDir isRandomOrder = Inr paths"
  shows "(\<forall>p \<in> set paths.
            Ext p \<in> {''.jpg'', ''.jpeg'', ''.png'', ''.gif'', ''.bmp''} \<and> suffix (Ext p) p)
         \<and> (\<not> isRandomOrder \<longrightarrow> paths = walkOrder w rootDir)"
proof -
  let ?r = "walkFn (WalkVisits w rootDir)"
  from assms have noerr: "snd ?r = None"
    by (auto simp: listImages_def listImagesAsync_def split: prod.splits option.splits)
  from assms noerr have paths:
    "paths = (if isRandomOrder then Shuffle (Intn w) (fst ?r) else fst ?r)"
    by (auto simp: listImages_def listImagesAsync_def receive_eq split: prod.splits option.splits)
  have "set paths = set (fst ?r)"
    by (simp add: paths Shuffle_set)
  then have "\<forall>p \<in> set paths. Ext p \<in> set imageExts"
    using walkFn_sent_images by blast
  then have ext: "\<forall>p \<in> set paths. Ext p \<in> {''.jpg'', ''.jpeg'', ''.png'', ''.gif'', ''.bmp''}"
    by (simp add: imageExts_def)
  have "\<not> isRandomOrder \<longrightarrow> paths = walkOrder w rootDir"
    using paths walkFn_no_error [OF noerr] by (simp add: walkOrder_def)
  with ext show ?thesis
    by (simp add: Ext_suffix)
qed

theorem listImages_extensions_and_order_witness:
  "listImages (demoEnv demoConfig) ''./content'' False = Inr [''content/a.png'', ''content/b.jpg'']
   \<and> Ext ''content/a.png'' = ''.png'' \<and> Ext ''content/b.jpg'' = ''.jpg''
   \<and> walkOrder (demoEnv demoConfig) ''./content'' = [''content/a.png'', ''content/b.jpg'']"
proof -
  have h: "listImages (demoEnv demoConfig) ''./content'' False
             = Inr [''content/a.png'', ''content/b.jpg'']"
    by (rule demo_listImages)
  show ?thesis
    using h listImages_extensions_and_order [OF h] by (simp add: Ext_def)
qed

section \<open>The shuffle\<close>

text \<open>
  Claim C6. For every enumerated list of paths, \<^verbatim>\<open>listImages\<close> returns it unchanged
  when the random-order flag is false, and applies one shuffle when the flag is true;
  the shuffled list has the same multiset of paths and the same length.
\<close>

theorem listImages_shuffle_only_when_configured:
  assumes "listImagesAsync w rootDir = (sent, None)"
  shows "listImages w rootDir False = Inr sent
         \<and> listImages w rootDir True = Inr (Shuffle (Intn w) sent)
         \<and> mset (Shuffle (Intn w) sent) = mset sent
         \<and> length (Shuffle (Intn w) sent) = length sent"
  using assms by (simp add: listImages_def receive_eq Shuffle_mset Shuffle_length)

theorem listImages_shuffle_only_when_configured_witness:
  "listImagesAsync (demoEnv demoConfig) ''./content'' = ([''content/a.png'', ''content/b.jpg''], None)
   \<and> listImages (demoEnv demoConfig) ''./content'' False = Inr [''content/a.png'', ''content/b.jpg'']
   \<and> listImages (demoEnv demoConfig) ''./content'' True = Inr [''content/b.jpg'', ''content/a.png'']"
proof -
  have h: "listImagesAsync (demoEnv demoConfig) ''./content''
             = ([''content/a.png'', ''content/b.jpg''], None)"
    by (rule demo_listImagesAsync)
  have s: "Shuffle (Intn (demoEnv demoConfig)) [''content/a.png'', ''content/b.jpg'']
             = [''content/b.jpg'', ''content/a.png'']"
    by (simp add: Shuffle_def swap_def demoEnv_def)
  show ?thesis
    using h s listImages_shuffle_only_when_configured [OF h] by simp
qed

section \<open>The index stays in range\<close>

text \<open>
  Claim C3. From index \<open>0\<close> at startup and through every sequence of timer fires, key
  presses and mouse clicks, the current index stays within \<open>[0, len(images))\<close>: every
  state that a run reaches has its index in range, and every event handler that returns
  maps an in-range index to an in-range index, for every image list. (With an empty list
  the first \<^verbatim>\<open>updateImage\<close> panics on \<^verbatim>\<open>images[0]\<close>, so no run reaches a state.)
\<close>

theorem currentIndex_in_range:
  "(run w es = Inr (a, g) \<longrightarrow>
      0 \<le> currentIndex g \<and> currentIndex g < int (length (images a)))
   \<and> (0 \<le> currentIndex g0 \<and> currentIndex g0 < int (length (images a0))
        \<and> step w a0 e g0 = Inr g1 \<longrightarrow>
      0 \<le> currentIndex g1 \<and> currentIndex g1 < int (length (images a0)))"
proof -
  have r: "run w es = Inr (a, g) \<longrightarrow>
      0 \<le> currentIndex g \<and> currentIndex g < int (length (images a))"
  proof
    assume "run w es = Inr (a, g)"
    then obtain g' where m: "main w = Inr (a, g')" and e: "events w a es g' = Inr g"
      unfolding run_def by (auto split: sum.splits prod.splits)
    from events_inRange [OF e main_inRange [OF m]]
    show "0 \<le> currentIndex g \<and> currentIndex g < int (length (images a))"
      by (simp add: inRange_def)
  qed
  have s: "0 \<le> currentIndex g0 \<and> currentIndex g0 < int (length (images a0))
        \<and> step w a0 e g0 = Inr g1 \<longrightarrow>
      0 \<le> currentIndex g1 \<and> currentIndex g1 < int (length (images a0))"
    using step_inRange [of w a0 e g0 g1] by (simp add: inRange_def)
  from r s show ?thesis by (rule conjI)
qed

theorem currentIndex_in_range_witness:
  "run (demoEnv demoConfig) [TimerFire, KeyPress KEY_Left, ButtonPress]
     = Inr (demoApp, demoGui\<lparr>currentIndex := 1, titleLabel := [], descLabel := [],
                            overlay := [], timeoutPending := False\<rparr>)
   \<and> step (demoEnv demoConfig) demoApp ButtonPress demoGui
     = Inr (demoGui\<lparr>currentIndex := 1, titleLabel := [], descLabel := [], overlay := []\<rparr>)
   \<and> currentIndex demoGui = 0 \<and> length (images demoApp) = 2"
proof -
  have h: "run (demoEnv demoConfig) [TimerFire, KeyPress KEY_Left, ButtonPress]
             = Inr (demoApp, demoGui\<lparr>currentIndex := 1, titleLabel := [], descLabel := [],
                                    overlay := [], timeoutPending := False\<rparr>)"
    by code_simp
  have s: "step (demoEnv demoConfig) demoApp ButtonPress demoGui
             = Inr (demoGui\<lparr>currentIndex := 1, titleLabel := [], descLabel := [],
                            overlay := []\<rparr>)"
    by code_simp
  have i: "currentIndex demoGui = 0" "length (images demoApp) = 2"
    by (simp_all add: demoGui_def demoApp_def)
  from currentIndex_in_range [of "demoEnv demoConfig"
      "[TimerFire, KeyPress KEY_Left, ButtonPress]" demoApp
      "demoGui\<lparr>currentIndex := 1, titleLabel := [], descLabel := [],
               overlay := [], timeoutPending := False\<rparr>"
      demoGui demoApp ButtonPress
      "demoGui\<lparr>currentIndex := 1, titleLabel := [], descLabel := [], overlay := []\<rparr>"]
    h s i
  show ?thesis by simp
qed

section \<open>Forward and backward\<close>



section \<open>The timer\<close>

text \<open>
  Claim C2 says that every transition arms the slide timer again. In the code the one
  call of \<^verbatim>\<open>glib.TimeoutAdd\<close> is in \<^verbatim>\<open>main\<close>; its callback returns \<^verbatim>\<open>false\<close>, and
  neither \<^verbatim>\<open>updateImage\<close> nor a handler registers another. After the first timer fire
  no source is pending, a key press leaves the count of registered timeouts at one, and
  a second timer fire never happens.
\<close>

theorem timer_never_armed_again:
  "run (demoEnv demoConfig) [TimerFire]
     = Inr (demoApp, demoGui\<lparr>currentIndex := 1, titleLabel := [], descLabel := [],
                            overlay := [], timeoutAdds := 1, timeoutPending := False\<rparr>)
   \<and> run (demoEnv demoConfig) [KeyPress KEY_Right]
     = Inr (demoApp, demoGui\<lparr>currentIndex := 1, titleLabel := [], descLabel := [],
                            overlay := [], timeoutAdds := 1, timeoutPending := True\<rparr>)
   \<and> run (demoEnv demoConfig) [TimerFire, TimerFire]
     = run (demoEnv demoConfig) [TimerFire]"
  by code_simp

section \<open>An image that cannot be decoded\<close>

text \<open>
  Claim C7 says that a decode error is logged and the slide skipped with a no-op
  cleanup. On the error path \<^verbatim>\<open>updateImage\<close> returns the closure that dereferences
  \<^verbatim>\<open>pixbuf\<close>, which is \<^verbatim>\<open>nil\<close> there; the caller runs it at once, and the program
  panics. Here the startup shows the first image, and a click that moves to the broken
  second image ends the program.
\<close>

theorem decode_error_cleanup_panics:
  "run brokenEnv [] = Inr (demoApp, demoGui)
   \<and> updateImage brokenEnv demoApp (demoGui\<lparr>currentIndex := 1\<rparr>)
       = Inr ([None], demoGui\<lparr>currentIndex := 1\<rparr>)
   \<and> run brokenEnv [ButtonPress]
       = Inl (Panic ''invalid memory address or nil pointer dereference'')"
  by code_simp

section \<open>The caption overlay\<close>

text \<open>
  Claim C1 says that after every transition the caption overlay is shown if and only if
  \<^verbatim>\<open>enable_text\<close> is true and a manifest entry has the path of the current image. The
  code misses it in both directions. With \<^verbatim>\<open>enable_text\<close> false, \<^verbatim>\<open>updateImage\<close> skips
  the removal together with the rest of the caption block, so the band and the label
  container that \<^verbatim>\<open>main\<close> attached and showed stay on screen: shown after a key press
  although the flag is false. With \<^verbatim>\<open>enable_text\<close> true and a first image that has no
  manifest entry, both widgets are detached when \<^verbatim>\<open>main\<close> makes its one call of
  \<^verbatim>\<open>win.ShowAll()\<close>; a click then moves to an image with an entry, \<^verbatim>\<open>updateImage\<close>
  attaches them again and never shows them: not shown although the flag is true and the
  entry matches.
\<close>

theorem caption_overlay_diverges:
  "run (demoEnv plainConfig) [KeyPress KEY_Right]
     = Inr (demoApp\<lparr>enableText := False\<rparr>,
            demoGui\<lparr>currentIndex := 1, titleLabel := [], descLabel := []\<rparr>)
   \<and> captionShown (demoGui\<lparr>currentIndex := 1, titleLabel := [], descLabel := []\<rparr>)
   \<and> \<not> captionClaim (demoApp\<lparr>enableText := False\<rparr>)
          (demoGui\<lparr>currentIndex := 1, titleLabel := [], descLabel := []\<rparr>)
   \<and> run lateEnv [ButtonPress]
     = Inr (demoApp\<lparr>manifest := lateManifest\<rparr>,
            demoGui\<lparr>currentIndex := 1,
                    titleLabel := markup ''#000000'' ''24'' ''Back'',
                    descLabel := markup ''#000000'' ''20'' ''Last page'',
                    visible := []\<rparr>)
   \<and> captionClaim (demoApp\<lparr>manifest := lateManifest\<rparr>)
        (demoGui\<lparr>currentIndex := 1,
                 titleLabel := markup ''#000000'' ''24'' ''Back'',
                 descLabel := markup ''#000000'' ''20'' ''Last page'',
                 visible := []\<rparr>)
   \<and> \<not> captionShown
          (demoGui\<lparr>currentIndex := 1,
                   titleLabel := markup ''#000000'' ''24'' ''Back'',
                   descLabel := markup ''#000000'' ''20'' ''Last page'',
                   visible := []\<rparr>)"
  by code_simp

section \<open>Missing or malformed files\<close>

text \<open>
  Claim C9. \<^verbatim>\<open>loadConfig\<close> and \<^verbatim>\<open>loadManifest\<close> return an error exactly when reading the
  file or unmarshalling its contents fails; when the configuration cannot be loaded, or it
  can and the manifest (at the configured or default path) cannot, \<^verbatim>\<open>main\<close> ends in
  \<^verbatim>\<open>log.Fatal\<close> and no slideshow state exists, whatever events were to follow.
\<close>

theorem load_failure_is_fatal:
  "((\<exists>err. loadConfig w path = Inl err) \<longleftrightarrow>
      (\<exists>err. ReadFile w path = Inl err)
      \<or> (\<exists>data err. ReadFile w path = Inr data \<and> UnmarshalConfig w data = Inl err))
   \<and> ((\<exists>err. loadManifest w path = Inl err) \<longleftrightarrow>
      (\<exists>err. ReadFile w path = Inl err)
      \<or> (\<exists>data err. ReadFile w path = Inr data \<and> UnmarshalManifest w data = Inl err))
   \<and> (loadConfig w ''config.yaml'' = Inl err1 \<longrightarrow>
        (\<exists>msg. main w = Inl (Fatal msg) \<and> run w es = Inl (Fatal msg)))
   \<and> (loadConfig w ''config.yaml'' = Inr config
        \<and> loadManifest w (if ManifestPath config = [] then ''./manifest.yaml''
                            else ManifestPath config) = Inl err2 \<longrightarrow>
        (\<exists>msg. main w = Inl (Fatal msg) \<and> run w es = Inl (Fatal msg)))"
proof -
  have c: "loadConfig w ''config.yaml'' = Inl err1 \<longrightarrow>
        (\<exists>msg. main w = Inl (Fatal msg) \<and> run w es = Inl (Fatal msg))"
    using main_config_error [of w err1] run_main_error [of w _ es] by blast
  have m: "loadConfig w ''config.yaml'' = Inr config
        \<and> loadManifest w (if ManifestPath config = [] then ''./manifest.yaml''
                            else ManifestPath config) = Inl err2 \<longrightarrow>
        (\<exists>msg. main w = Inl (Fatal msg) \<and> run w es = Inl (Fatal msg))"
    using main_manifest_error [of w config err2] run_main_error [of w _ es] by blast
  from loadConfig_error [of w path] loadManifest_error [of w path] c m
  show ?thesis by (intro conjI)
qed

theorem load_failure_is_fatal_witness:
  "loadConfig noConfigEnv ''config.yaml'' = Inl ''no such file or directory''
   \<and> main noConfigEnv = Inl (Fatal ''Failed to load config: no such file or directory'')
   \<and> loadConfig noManifestEnv ''config.yaml'' = Inr demoConfig
   \<and> loadManifest noManifestEnv ''./manifest.yaml'' = Inl ''no such file or directory''
   \<and> main noManifestEnv = Inl (Fatal ''Failed to load manifest: no such file or directory'')"
proof -
  have c: "loadConfig noConfigEnv ''config.yaml'' = Inl ''no such file or directory''"
    by code_simp
  have c': "loadConfig noManifestEnv ''config.yaml'' = Inr demoConfig"
    by code_simp
  have m: "loadManifest noManifestEnv ''./manifest.yaml'' = Inl ''no such file or directory''"
    by code_simp
  have e: "main noConfigEnv = Inl (Fatal ''Failed to load config: no such file or directory'')"
    "main noManifestEnv = Inl (Fatal ''Failed to load manifest: no such file or directory'')"
    by code_simp+
  have p: "(if ManifestPath demoConfig = [] then ''./manifest.yaml''
            else ManifestPath demoConfig) = ''./manifest.yaml''"
    by (simp add: demoConfig_def)
  from load_failure_is_fatal [of noConfigEnv "''config.yaml''" "''no such file or directory''"]
    load_failure_is_fatal [of noManifestEnv "''config.yaml''" "[]" "[]" demoConfig
      "''no such file or directory''"]
    c c' m e p
  show ?thesis by simp
qed

section \<open>Defaults\<close>

text \<open>
  Claim C10 as stated: a zero \<^verbatim>\<open>slide_interval\<close> becomes \<open>30000\<close> milliseconds, any
  other value becomes the configured seconds times \<open>1000\<close>. The product is computed in
  \<^verbatim>\<open>uint\<close> and the test for zero is made on the product: \<open>2 ^ 61\<close> seconds is not zero
  and yet becomes \<open>30000\<close>, and \<open>18446744073709552\<close> seconds become \<open>384\<close> milliseconds.
\<close>

theorem slide_interval_wraps:
  "main (demoEnv zeroProductConfig) = Inr (demoApp\<lparr>slideInterval := 30000\<rparr>, demoGui)
   \<and> SlideInterval zeroProductConfig \<noteq> 0
   \<and> slideIntervalClaim zeroProductConfig = 2305843009213693952000
   \<and> main (demoEnv wrappedConfig) = Inr (demoApp\<lparr>slideInterval := 384\<rparr>, demoGui)
   \<and> slideIntervalClaim wrappedConfig = 18446744073709552000"
proof -
  have z: "(2305843009213693952 :: 64 word) * 1000 = 0" by simp
  have w: "(18446744073709552 :: 64 word) * 1000 = 384" by simp
  have "main (demoEnv zeroProductConfig) = Inr (demoApp\<lparr>slideInterval := 30000\<rparr>, demoGui)"
    unfolding zeroProductConfig_def demo_main_interval using z by simp
  moreover have "main (demoEnv wrappedConfig) = Inr (demoApp\<lparr>slideInterval := 384\<rparr>, demoGui)"
    unfolding wrappedConfig_def demo_main_interval using w by simp
  moreover have "SlideInterval zeroProductConfig \<noteq> 0"
    "slideIntervalClaim zeroProductConfig = 2305843009213693952000"
    "slideIntervalClaim wrappedConfig = 18446744073709552000"
    by (simp_all add: zeroProductConfig_def wrappedConfig_def slideIntervalClaim_def)
  ultimately show ?thesis by blast
qed


text \<open>
  Claim C10, amended. For every loaded configuration, \<^verbatim>\<open>main\<close> replaces an empty
  \<^verbatim>\<open>content_directory\<close> by \<^verbatim>\<open>./content\<close>, an empty \<^verbatim>\<open>fill_color\<close> by \<^verbatim>\<open>#ADD8E6\<close>, an
  empty \<^verbatim>\<open>text_color\<close> by \<^verbatim>\<open>#000000\<close> and an empty \<^verbatim>\<open>manifest_path\<close> by
  \<^verbatim>\<open>./manifest.yaml\<close> before it uses them; the slide interval is \<^verbatim>\<open>slide_interval\<close>
  times \<open>1000\<close> in 64-bit unsigned arithmetic, replaced by \<open>30000\<close> when that product is
  zero, which for every \<^verbatim>\<open>slide_interval\<close> whose product fits into 64 bits is \<open>30000\<close>
  for zero and the configured seconds times \<open>1000\<close> otherwise.
\<close>

theorem defaults_replace_missing_fields:
  assumes "main w = Inr (a, g)"
  shows "\<exists>config. loadConfig w ''config.yaml'' = Inr config
           \<and> contentDirectory a =
               (if ContentDirectory config = [] then ''./content'' else ContentDirectory config)
           \<and> fillColor a = (if FillColor config = [] then ''#ADD8E6'' else FillColor config)
           \<and> textColor a = (if TextColor config = [] then ''#000000'' else TextColor config)
           \<and> manifestPath a =
               (if ManifestPath config = [] then ''./manifest.yaml'' else ManifestPath config)
           \<and> slideInterval a =
               (if SlideInterval config * 1000 = 0 then 30000 else SlideInterval config * 1000)
           \<and> (unat (SlideInterval config) * 1000 < 2 ^ 64 \<longrightarrow>
                unat (slideInterval a) = slideIntervalClaim config)
           \<and> hexToRGB w (fillColor a) = Inr (fillColorRGB a)
           \<and> loadManifest w (manifestPath a) = Inr (manifest a)
           \<and> listImages w (contentDirectory a) (IsRandomOrder config) = Inr (images a)"
proof -
  from main_settings [OF assms] obtain config where
    s: "loadConfig w ''config.yaml'' = Inr config
           \<and> contentDirectory a =
               (if ContentDirectory config = [] then ''./content'' else ContentDirectory config)
           \<and> slideInterval a =
               (if SlideInterval config * 1000 = 0 then 30000 else SlideInterval config * 1000)
           \<and> fillColor a = (if FillColor config = [] then ''#ADD8E6'' else FillColor config)
           \<and> textColor a = (if TextColor config = [] then ''#000000'' else TextColor config)
           \<and> manifestPath a =
               (if ManifestPath config = [] then ''./manifest.yaml'' else ManifestPath config)
           \<and> enableText a = EnableText config
           \<and> hexToRGB w (fillColor a) = Inr (fillColorRGB a)
           \<and> loadManifest w (manifestPath a) = Inr (manifest a)
           \<and> listImages w (contentDirectory a) (IsRandomOrder config) = Inr (images a)"
    by blast
  then have i: "slideInterval a =
      (if SlideInterval config * 1000 = 0 then 30000 else SlideInterval config * 1000)"
    by blast
  have "unat (SlideInterval config) * 1000 < 2 ^ 64 \<longrightarrow>
          unat (slideInterval a) = slideIntervalClaim config"
    unfolding i slideIntervalClaim_def using slideInterval_small [of "SlideInterval config"]
    by blast
  with s show ?thesis by blast
qed

theorem defaults_replace_missing_fields_witness:
  "main (demoEnv demoConfig) = Inr (demoApp, demoGui)
   \<and> loadConfig (demoEnv demoConfig) ''config.yaml'' = Inr demoConfig
   \<and> contentDirectory demoApp = ''./content'' \<and> fillColor demoApp = ''#ADD8E6''
   \<and> textColor demoApp = ''#000000'' \<and> manifestPath demoApp = ''./manifest.yaml''
   \<and> slideInterval demoApp = 5000 \<and> slideIntervalClaim demoConfig = 5000"
proof -
  have h: "main (demoEnv demoConfig) = Inr (demoApp, demoGui)"
    by code_simp
  have c: "loadConfig (demoEnv demoConfig) ''config.yaml'' = Inr demoConfig"
    by (rule demo_loadConfig)
  from defaults_replace_missing_fields [OF h] c
  have "unat (SlideInterval demoConfig) * 1000 < 2 ^ 64 \<longrightarrow>
          unat (slideInterval demoApp) = slideIntervalClaim demoConfig"
    by auto
  then have "slideIntervalClaim demoConfig = 5000"
    by (simp add: demoConfig_def demoApp_def)
  with h c show ?thesis
    by (simp add: demoApp_def)
qed

end
